theory Spec2Isabelle
  imports Main "HOL-Library.Sublist"
begin

section \<open>JSON values and HTTP responses\<close>

text \<open>
  The handlers exchange JSON. A JSON number is an \<open>int\<close> here: the numbers these handlers
  look at are identifiers and counts. An object is an association list from field names
  to values; \<open>map_of\<close> reads a field, and \<open>None\<close> is JavaScript's \<open>undefined\<close>.
\<close>

datatype json =
    JNull
  | JBool bool
  | JNum int
  | JStr string
  | JArr "json list"
  | JObj "(string \<times> json) list"

type_synonym obj = "(string \<times> json) list"

text \<open>A response: \<open>NextResponse.json(v, {status})\<close> has the body \<open>Some v\<close>;
  \<open>new NextResponse(null, {status})\<close> has no body.\<close>

record response =
  status :: nat
  body :: "json option"

definition json_response :: "json \<Rightarrow> nat \<Rightarrow> response" where
  "json_response v st = \<lparr>status = st, body = Some v\<rparr>"

definition empty_response :: "nat \<Rightarrow> response" where
  "empty_response st = \<lparr>status = st, body = None\<rparr>"

definition error_json :: "string \<Rightarrow> json" where
  "error_json msg = JObj [(''error'', JStr msg)]"

text \<open>The field \<open>k\<close> of a response whose body is an object.\<close>

definition response_field :: "response \<Rightarrow> string \<Rightarrow> json option" where
  "response_field r k = (case body r of Some (JObj fs) \<Rightarrow> map_of fs k | _ \<Rightarrow> None)"

text \<open>JavaScript truthiness of a value that may be \<open>undefined\<close>: \<open>undefined\<close>, \<open>null\<close>,
  \<open>false\<close>, \<open>0\<close> and the empty string are falsy, everything else is truthy.\<close>

fun truthy :: "json option \<Rightarrow> bool" where
  "truthy None = False"
| "truthy (Some JNull) = False"
| "truthy (Some (JBool b)) = b"
| "truthy (Some (JNum n)) = (n \<noteq> 0)"
| "truthy (Some (JStr s)) = (s \<noteq> [])"
| "truthy (Some (JArr _)) = True"
| "truthy (Some (JObj _)) = True"

section \<open>Strings and numbers\<close>

text \<open>Template literals render a number in decimal.\<close>

definition digit_char :: "nat \<Rightarrow> char" where
  "digit_char n = ''0123456789'' ! n"

fun show_nat :: "nat \<Rightarrow> string" where
  "show_nat n = (if n < 10 then [digit_char n] else show_nat (n div 10) @ [digit_char (n mod 10)])"

declare show_nat.simps [simp del]

definition show_int :: "int \<Rightarrow> string" where
  "show_int i = (if i < 0 then CHR ''-'' # show_nat (nat (- i)) else show_nat (nat i))"

text \<open>\<open>Array.prototype.join\<close> on a list of strings.\<close>

fun join :: "string \<Rightarrow> string list \<Rightarrow> string" where
  "join sep [] = []"
| "join sep [x] = x"
| "join sep (x # y # ys) = x @ sep @ join sep (y # ys)"

text \<open>
  \<open>parseInt(s)\<close> with no radix: leading white space is skipped, a sign is read, a
  \<open>0x\<close> prefix selects base 16, and the longest run of digits is converted. \<open>None\<close> is
  \<open>NaN\<close>. \<open>parseInt(null)\<close> is \<open>NaN\<close> as well, see \<open>parseInt_opt\<close>.
\<close>

definition is_space :: "char \<Rightarrow> bool" where
  "is_space c = (c \<in> set [CHR '' '', CHR 0x09, CHR 0x0A, CHR 0x0B, CHR 0x0C, CHR 0x0D])"

definition hex_val :: "char \<Rightarrow> nat option" where
  "hex_val c = map_of (zip ''0123456789abcdef'' [0 ..< 16] @ zip ''ABCDEF'' [10 ..< 16]) c"

definition dec_val :: "char \<Rightarrow> nat option" where
  "dec_val c = map_of (zip ''0123456789'' [0 ..< 10]) c"

definition read_digits :: "nat \<Rightarrow> (char \<Rightarrow> nat option) \<Rightarrow> string \<Rightarrow> nat option" where
  "read_digits base val s =
     (let ds = takeWhile (\<lambda>c. val c \<noteq> None) s
      in if ds = [] then None
         else Some (foldl (\<lambda>acc c. base * acc + the (val c)) 0 ds))"

definition read_magnitude :: "string \<Rightarrow> nat option" where
  "read_magnitude s =
     (if take 2 s = ''0x'' \<or> take 2 s = ''0X'' then read_digits 16 hex_val (drop 2 s)
      else read_digits 10 dec_val s)"

definition parseInt :: "string \<Rightarrow> int option" where
  "parseInt s =
     (let t = dropWhile is_space s
      in case t of
           [] \<Rightarrow> None
         | c # r \<Rightarrow>
             if c = CHR ''-'' then map_option (\<lambda>n. - int n) (read_magnitude r)
             else if c = CHR ''+'' then map_option int (read_magnitude r)
             else map_option int (read_magnitude t))"

definition parseInt_opt :: "string option \<Rightarrow> int option" where
  "parseInt_opt s = (case s of None \<Rightarrow> None | Some t \<Rightarrow> parseInt t)"

text \<open>\<open>url.split('/').pop()\<close>: the text after the last slash (all of it when there is none).\<close>

definition last_segment :: "string \<Rightarrow> string" where
  "last_segment url = rev (takeWhile (\<lambda>c. c \<noteq> CHR ''/'') (rev url))"

section \<open>The sign-in redirect callback\<close>

text \<open>
  \<^verbatim>\<open>async redirect({ url, baseUrl }) { return url.startsWith(baseUrl) ? baseUrl : url; }\<close>
\<close>

definition redirect :: "string \<Rightarrow> string \<Rightarrow> string" where
  "redirect url baseUrl = (if prefix baseUrl url then baseUrl else url)"

section \<open>The persistence store\<close>

text \<open>
  The rows the handlers read and write. Timestamps are left out: no handler modelled
  here looks at them.
\<close>

record user_row =
  u_id :: int
  u_username :: string
  u_email :: string
  u_password :: string
  u_roleId :: int

record role_row =
  r_id :: int
  r_name :: string

record profile_row =
  p_userId :: int
  p_firstName :: "string option"
  p_lastName :: "string option"
  p_phone :: "string option"
  p_address :: "string option"

record request_row =
  q_id :: int
  q_userId :: int
  q_description :: string
  q_status :: string

record log_row =
  l_userId :: int
  l_action :: string
  l_description :: string

record db =
  connected :: bool
  users :: "user_row list"
  roles :: "role_row list"
  profiles :: "profile_row list"
  requests :: "request_row list"
  activityLogs :: "log_row list"

datatype prisma_error =
    ConnectionError
  | RecordNotFound
  | UniqueConstraintFailed
  | ForeignKeyConstraintFailed
  | ArgumentError

definition prisma_request_findMany :: "db \<Rightarrow> prisma_error + request_row list" where
  "prisma_request_findMany d = (if connected d then Inr (requests d) else Inl ConnectionError)"

section \<open>The request statistics handler\<close>

record stats =
  total :: nat
  pending :: nat
  inProgress :: nat
  completed :: nat
  rejected :: nat

definition count_status :: "string \<Rightarrow> request_row list \<Rightarrow> nat" where
  "count_status s rs = length (filter (\<lambda>req. q_status req = s) rs)"

definition request_stats :: "request_row list \<Rightarrow> stats" where
  "request_stats rs =
     \<lparr>total = length rs,
      pending = count_status ''pending'' rs,
      inProgress = count_status ''in-progress'' rs,
      completed = count_status ''completed'' rs,
      rejected = count_status ''rejected'' rs\<rparr>"

definition stats_json :: "stats \<Rightarrow> json" where
  "stats_json s =
     JObj [(''total'', JNum (int (total s))),
           (''pending'', JNum (int (pending s))),
           (''inProgress'', JNum (int (inProgress s))),
           (''completed'', JNum (int (completed s))),
           (''rejected'', JNum (int (rejected s)))]"

definition stats_GET :: "db \<Rightarrow> response" where
  "stats_GET d =
     (case prisma_request_findMany d of
        Inl e \<Rightarrow> json_response (error_json ''Failed to fetch request stats'') 500
      | Inr rs \<Rightarrow> json_response (stats_json (request_stats rs)) 200)"

section \<open>Schema validation\<close>

text \<open>
  The validation library (Joi) is not part of the repository; its validators are written
  out here as far as the schemas of the handlers use them. A field validator takes the
  field's name and its value (\<open>None\<close> when the field is absent) and returns the messages
  of the violated constraints, or the validated value. With \<open>abortEarly: false\<close> a
  handler reports all messages, otherwise the first one.
\<close>

definition quoted :: "string \<Rightarrow> string" where
  "quoted k = CHR 0x22 # k @ [CHR 0x22]"

definition errors_of :: "string list + 'a \<Rightarrow> string list" where
  "errors_of r = (case r of Inl es \<Rightarrow> es | Inr _ \<Rightarrow> [])"

text \<open>\<open>Joi.number()\<close> takes a number, or (converting) a string that is written as a
  number; of these strings the optionally signed runs of decimal digits, with white
  space around them, are modelled. A number beyond \<open>2^53 - 1\<close> is unsafe.\<close>

definition numeric_string :: "string \<Rightarrow> int option" where
  "numeric_string s =
     (let t = rev (dropWhile is_space (rev (dropWhile is_space s)));
          neg = (take 1 t = ''-'');
          ds = (if take 1 t = ''-'' \<or> take 1 t = ''+'' then drop 1 t else t)
      in if ds \<noteq> [] \<and> list_all (\<lambda>c. dec_val c \<noteq> None) ds
         then map_option (\<lambda>n. if neg then - int n else int n) (read_digits 10 dec_val ds)
         else None)"

definition safe_number :: "string \<Rightarrow> int \<Rightarrow> string list + int" where
  "safe_number k n =
     (if \<bar>n\<bar> \<le> 9007199254740991 then Inr n else Inl [quoted k @ '' must be a safe number''])"

fun joi_number_required :: "string \<Rightarrow> json option \<Rightarrow> string list + int" where
  "joi_number_required k None = Inl [quoted k @ '' is required'']"
| "joi_number_required k (Some (JNum n)) = safe_number k n"
| "joi_number_required k (Some (JStr s)) =
     (case numeric_string s of
        Some n \<Rightarrow> safe_number k n
      | None \<Rightarrow> Inl [quoted k @ '' must be a number''])"
| "joi_number_required k (Some _) = Inl [quoted k @ '' must be a number'']"

text \<open>The rules of \<open>Joi.string()\<close>: each gives the messages of a non-empty string.\<close>

definition rule_min :: "nat \<Rightarrow> string \<Rightarrow> string \<Rightarrow> string list" where
  "rule_min n k s =
     (if length s < n
      then [quoted k @ '' length must be at least '' @ show_nat n @ '' characters long'']
      else [])"

definition rule_max :: "nat \<Rightarrow> string \<Rightarrow> string \<Rightarrow> string list" where
  "rule_max n k s =
     (if n < length s
      then [quoted k @ '' length must be less than or equal to '' @ show_nat n
              @ '' characters long'']
      else [])"

definition is_alnum :: "char \<Rightarrow> bool" where
  "is_alnum c =
     (c \<in> set ''abcdefghijklmnopqrstuvwxyzABCDEFGHIJKLMNOPQRSTUVWXYZ0123456789'')"

definition rule_alphanum :: "string \<Rightarrow> string \<Rightarrow> string list" where
  "rule_alphanum k s =
     (if list_all is_alnum s then []
      else [quoted k @ '' must only contain alpha-numeric characters''])"

text \<open>The address check of \<open>.email({ tlds: { allow: false } })\<close>, in outline: one \<open>@\<close>, a
  non-empty local part, and a domain of at least two non-empty segments.\<close>

fun split_on :: "char \<Rightarrow> string \<Rightarrow> string list" where
  "split_on c [] = [[]]"
| "split_on c (x # xs) =
     (if x = c then [] # split_on c xs
      else (case split_on c xs of [] \<Rightarrow> [[x]] | w # ws \<Rightarrow> (x # w) # ws))"

definition email_syntax :: "string \<Rightarrow> bool" where
  "email_syntax s =
     (case split_on (CHR ''@'') s of
        [local_part, domain] \<Rightarrow>
          local_part \<noteq> [] \<and> \<not> list_ex is_space s
          \<and> 2 \<le> length (split_on (CHR ''.'') domain)
          \<and> list_all (\<lambda>seg. seg \<noteq> []) (split_on (CHR ''.'') domain)
      | _ \<Rightarrow> False)"

definition rule_email :: "string \<Rightarrow> string \<Rightarrow> string list" where
  "rule_email k s = (if email_syntax s then [] else [quoted k @ '' must be a valid email''])"

text \<open>A string is never converted from another type, and the empty string is refused
  before any rule is looked at.\<close>

definition apply_rules :: "(string \<Rightarrow> string \<Rightarrow> string list) list \<Rightarrow> string \<Rightarrow> string \<Rightarrow> string list" where
  "apply_rules rules k s = concat (map (\<lambda>rule. rule k s) rules)"

fun joi_string :: "(string \<Rightarrow> string \<Rightarrow> string list) list \<Rightarrow> string \<Rightarrow> json \<Rightarrow> string list + string" where
  "joi_string rules k (JStr s) =
     (if s = [] then Inl [quoted k @ '' is not allowed to be empty'']
      else if apply_rules rules k s = [] then Inr s
      else Inl (apply_rules rules k s))"
| "joi_string rules k _ = Inl [quoted k @ '' must be a string'']"

definition joi_string_required ::
  "(string \<Rightarrow> string \<Rightarrow> string list) list \<Rightarrow> string \<Rightarrow> json option \<Rightarrow> string list + string" where
  "joi_string_required rules k v =
     (case v of None \<Rightarrow> Inl [quoted k @ '' is required''] | Some x \<Rightarrow> joi_string rules k x)"

definition joi_string_optional ::
  "(string \<Rightarrow> string \<Rightarrow> string list) list \<Rightarrow> string \<Rightarrow> json option \<Rightarrow> string list + string option" where
  "joi_string_optional rules k v =
     (case v of
        None \<Rightarrow> Inr None
      | Some x \<Rightarrow> (case joi_string rules k x of Inl es \<Rightarrow> Inl es | Inr s \<Rightarrow> Inr (Some s)))"

text \<open>\<open>Joi.string().valid(...)\<close>: only the listed values pass. A value that is not
  listed is reported, and so is what the string type itself has against it.\<close>

definition only_message :: "string \<Rightarrow> string list \<Rightarrow> string" where
  "only_message k allowed = quoted k @ '' must be one of ['' @ join '', '' allowed @ '']''"

fun joi_valid :: "string list \<Rightarrow> string \<Rightarrow> json \<Rightarrow> string list + string" where
  "joi_valid allowed k (JStr s) =
     (if s \<in> set allowed then Inr s
      else Inl (only_message k allowed
                # (if s = [] then [quoted k @ '' is not allowed to be empty''] else [])))"
| "joi_valid allowed k _ = Inl [only_message k allowed, quoted k @ '' must be a string'']"

definition joi_valid_default :: "string list \<Rightarrow> string \<Rightarrow> string \<Rightarrow> json option \<Rightarrow> string list + string" where
  "joi_valid_default allowed dflt k v =
     (case v of None \<Rightarrow> Inr dflt | Some x \<Rightarrow> joi_valid allowed k x)"

definition joi_valid_required :: "string list \<Rightarrow> string \<Rightarrow> json option \<Rightarrow> string list + string" where
  "joi_valid_required allowed k v =
     (case v of None \<Rightarrow> Inl [quoted k @ '' is required''] | Some x \<Rightarrow> joi_valid allowed k x)"

text \<open>The fields of the body that the schema does not name, and their messages when
  \<open>allowUnknown\<close> is off.\<close>

definition unknown_fields :: "string list \<Rightarrow> obj \<Rightarrow> obj" where
  "unknown_fields known b = filter (\<lambda>kv. fst kv \<notin> set known) b"

definition unknown_errors :: "bool \<Rightarrow> string list \<Rightarrow> obj \<Rightarrow> string list" where
  "unknown_errors allowUnknown known b =
     (if allowUnknown then []
      else map (\<lambda>kv. quoted (fst kv) @ '' is not allowed'') (unknown_fields known b))"

section \<open>The ORM calls on requests and activity logs\<close>

text \<open>
  Modelled from the spec: the database schema is not among the sources. The store keeps
  the foreign keys the spec lists (UserProfile, Request and ActivityLog each refer to a
  User) with no cascade, hands out fresh identifiers, and a call fails when the store is
  not reachable, when the row it names is absent, or when its arguments are not columns
  of the table. Every failure is an exception in the handler.
\<close>

definition next_id :: "int list \<Rightarrow> int" where
  "next_id ids = fold max ids 0 + 1"

definition user_exists :: "int \<Rightarrow> db \<Rightarrow> bool" where
  "user_exists i d = (i \<in> set (map u_id (users d)))"

text \<open>The validated body of a request: the three columns, and the fields the schema
  does not know (kept only under \<open>allowUnknown\<close>).\<close>

record request_data =
  d_userId :: int
  d_description :: string
  d_status :: string
  d_unknown :: obj

definition prisma_request_create :: "request_data \<Rightarrow> db \<Rightarrow> prisma_error + (request_row \<times> db)" where
  "prisma_request_create v d =
     (if \<not> connected d then Inl ConnectionError
      else if d_unknown v \<noteq> [] then Inl ArgumentError
      else if \<not> user_exists (d_userId v) d then Inl ForeignKeyConstraintFailed
      else let r = \<lparr>q_id = next_id (map q_id (requests d)), q_userId = d_userId v,
                     q_description = d_description v, q_status = d_status v\<rparr>
           in Inr (r, d\<lparr>requests := requests d @ [r]\<rparr>))"

definition prisma_request_update ::
  "int option \<Rightarrow> request_data \<Rightarrow> db \<Rightarrow> prisma_error + (request_row \<times> db)" where
  "prisma_request_update i v d =
     (if \<not> connected d then Inl ConnectionError
      else case i of
        None \<Rightarrow> Inl ArgumentError
      | Some n \<Rightarrow>
          if d_unknown v \<noteq> [] then Inl ArgumentError
          else (case find (\<lambda>r. q_id r = n) (requests d) of
             None \<Rightarrow> Inl RecordNotFound
           | Some old \<Rightarrow>
               if \<not> user_exists (d_userId v) d then Inl ForeignKeyConstraintFailed
               else let r = old\<lparr>q_userId := d_userId v, q_description := d_description v,
                                q_status := d_status v\<rparr>
                    in Inr (r, d\<lparr>requests := map (\<lambda>x. if q_id x = n then r else x) (requests d)\<rparr>)))"

definition prisma_request_delete :: "int option \<Rightarrow> db \<Rightarrow> prisma_error + (request_row \<times> db)" where
  "prisma_request_delete i d =
     (if \<not> connected d then Inl ConnectionError
      else case i of
        None \<Rightarrow> Inl ArgumentError
      | Some n \<Rightarrow>
          (case find (\<lambda>r. q_id r = n) (requests d) of
             None \<Rightarrow> Inl RecordNotFound
           | Some old \<Rightarrow> Inr (old, d\<lparr>requests := filter (\<lambda>x. q_id x \<noteq> n) (requests d)\<rparr>)))"

definition prisma_activityLog_create :: "log_row \<Rightarrow> db \<Rightarrow> prisma_error + db" where
  "prisma_activityLog_create l d =
     (if \<not> connected d then Inl ConnectionError
      else if \<not> user_exists (l_userId l) d then Inl ForeignKeyConstraintFailed
      else Inr (d\<lparr>activityLogs := activityLogs d @ [l]\<rparr>))"

section \<open>The request collection handler\<close>

text \<open>
  \<^verbatim>\<open>
  const requestSchema = Joi.object({
    userId: Joi.number().required(),
    description: Joi.string().min(10).required(),
    status: Joi.string().valid('pending', 'in-progress', 'completed').default('pending'),
  });
  \<close>
  The handlers take the parsed JSON object of the request body, and the \<open>id\<close> query
  parameter \<open>qid\<close> as \<open>searchParams.get('id')\<close> gives it (\<open>None\<close> when it is not in the URL).
\<close>

definition requestSchema_validate :: "bool \<Rightarrow> obj \<Rightarrow> string list + request_data" where
  "requestSchema_validate allowUnknown b =
     (let uid = joi_number_required ''userId'' (map_of b ''userId'');
          desc = joi_string_required [rule_min 10] ''description'' (map_of b ''description'');
          st = joi_valid_default [''pending'', ''in-progress'', ''completed''] ''pending''
                 ''status'' (map_of b ''status'');
          known = [''userId'', ''description'', ''status''];
          errs = errors_of uid @ errors_of desc @ errors_of st
                 @ unknown_errors allowUnknown known b
      in case (uid, desc, st) of
           (Inr u, Inr de, Inr s) \<Rightarrow>
             if errs = [] then
               Inr \<lparr>d_userId = u, d_description = de, d_status = s,
                    d_unknown = unknown_fields known b\<rparr>
             else Inl errs
         | _ \<Rightarrow> Inl errs)"

definition logActivity :: "int \<Rightarrow> string \<Rightarrow> string \<Rightarrow> db \<Rightarrow> prisma_error + db" where
  "logActivity userId action description d =
     prisma_activityLog_create
       \<lparr>l_userId = userId, l_action = action, l_description = description\<rparr> d"

definition request_json :: "request_row \<Rightarrow> json" where
  "request_json r =
     JObj [(''id'', JNum (q_id r)), (''userId'', JNum (q_userId r)),
           (''description'', JStr (q_description r)), (''status'', JStr (q_status r))]"

definition requests_POST :: "obj \<Rightarrow> db \<Rightarrow> response \<times> db" where
  "requests_POST b d =
     (case requestSchema_validate False b of
        Inl errs \<Rightarrow> (json_response (error_json (hd errs)) 400, d)
      | Inr v \<Rightarrow>
          (case prisma_request_create v d of
             Inl e \<Rightarrow> (json_response (error_json ''Error creating request'') 500, d)
           | Inr (newRequest, d1) \<Rightarrow>
               (case logActivity (q_userId newRequest) ''CREATE''
                       (''Created a new request with ID '' @ show_int (q_id newRequest)) d1 of
                  Inl e \<Rightarrow> (json_response (error_json ''Error creating request'') 500, d1)
                | Inr d2 \<Rightarrow> (json_response (request_json newRequest) 201, d2))))"

definition requests_PUT :: "string option \<Rightarrow> obj \<Rightarrow> db \<Rightarrow> response \<times> db" where
  "requests_PUT qid b d =
     (case requestSchema_validate True b of
        Inl errs \<Rightarrow> (json_response (error_json (join '', '' errs)) 400, d)
      | Inr v \<Rightarrow>
          (case prisma_request_update (parseInt_opt qid) v d of
             Inl e \<Rightarrow> (json_response (error_json ''Error updating request'') 500, d)
           | Inr (updatedRequest, d1) \<Rightarrow>
               (case logActivity (q_userId updatedRequest) ''UPDATE''
                       (''Updated request with ID '' @ show_int (q_id updatedRequest)) d1 of
                  Inl e \<Rightarrow> (json_response (error_json ''Error updating request'') 500, d1)
                | Inr d2 \<Rightarrow> (json_response (request_json updatedRequest) 200, d2))))"

definition requests_DELETE :: "string option \<Rightarrow> db \<Rightarrow> response \<times> db" where
  "requests_DELETE qid d =
     (case prisma_request_delete (parseInt_opt qid) d of
        Inl e \<Rightarrow> (json_response (error_json ''Error deleting request'') 500, d)
      | Inr (deletedRequest, d1) \<Rightarrow>
          (case logActivity (q_userId deletedRequest) ''DELETE''
                  (''Deleted request with ID '' @ show_int (q_id deletedRequest)) d1 of
             Inl e \<Rightarrow> (json_response (error_json ''Error deleting request'') 500, d1)
           | Inr d2 \<Rightarrow> (json_response (JObj []) 200, d2)))"

section \<open>The ORM calls on users, roles and profiles\<close>

text \<open>The message of a failure, as far as a handler looks at it.\<close>

definition error_message :: "prisma_error \<Rightarrow> string" where
  "error_message e =
     (case e of
        ConnectionError \<Rightarrow> ''Can'' @ [CHR 0x27] @ ''t reach database server''
      | RecordNotFound \<Rightarrow> ''An operation failed because it depends on one or more records that were required but not found''
      | UniqueConstraintFailed \<Rightarrow> ''Unique constraint failed on the fields''
      | ForeignKeyConstraintFailed \<Rightarrow> ''Foreign key constraint failed on the field''
      | ArgumentError \<Rightarrow> ''Invalid invocation'')"

text \<open>\<open>s.includes(t)\<close>.\<close>

definition str_includes :: "string \<Rightarrow> string \<Rightarrow> bool" where
  "str_includes s t = sublist t s"

text \<open>The four profile columns as a call passes them: \<open>None\<close> is \<open>undefined\<close>.\<close>

record profile_fields =
  f_firstName :: "string option"
  f_lastName :: "string option"
  f_phone :: "string option"
  f_address :: "string option"

record user_create =
  c_username :: string
  c_email :: string
  c_password :: string
  c_roleId :: int
  c_profile :: profile_fields

record user_update =
  upd_username :: "string option"
  upd_email :: "string option"
  upd_password :: "string option"

definition prisma_role_findUnique :: "string \<Rightarrow> db \<Rightarrow> prisma_error + role_row option" where
  "prisma_role_findUnique name d =
     (if connected d then Inr (find (\<lambda>r. r_name r = name) (roles d)) else Inl ConnectionError)"

definition prisma_user_findUnique :: "int option \<Rightarrow> db \<Rightarrow> prisma_error + user_row option" where
  "prisma_user_findUnique i d =
     (if \<not> connected d then Inl ConnectionError
      else case i of
        None \<Rightarrow> Inl ArgumentError
      | Some n \<Rightarrow> Inr (find (\<lambda>u. u_id u = n) (users d)))"

definition prisma_user_findMany :: "db \<Rightarrow> prisma_error + user_row list" where
  "prisma_user_findMany d = (if connected d then Inr (users d) else Inl ConnectionError)"

definition prisma_user_create :: "user_create \<Rightarrow> db \<Rightarrow> prisma_error + (user_row \<times> db)" where
  "prisma_user_create c d =
     (if \<not> connected d then Inl ConnectionError
      else if c_username c \<in> set (map u_username (users d))
              \<or> c_email c \<in> set (map u_email (users d)) then Inl UniqueConstraintFailed
      else if c_roleId c \<notin> set (map r_id (roles d)) then Inl RecordNotFound
      else let u = \<lparr>u_id = next_id (map u_id (users d)), u_username = c_username c,
                     u_email = c_email c, u_password = c_password c, u_roleId = c_roleId c\<rparr>;
               p = \<lparr>p_userId = u_id u, p_firstName = f_firstName (c_profile c),
                     p_lastName = f_lastName (c_profile c), p_phone = f_phone (c_profile c),
                     p_address = f_address (c_profile c)\<rparr>
           in Inr (u, d\<lparr>users := users d @ [u], profiles := profiles d @ [p]\<rparr>))"

definition prisma_user_update ::
  "int option \<Rightarrow> user_update \<Rightarrow> db \<Rightarrow> prisma_error + (user_row \<times> db)" where
  "prisma_user_update i c d =
     (if \<not> connected d then Inl ConnectionError
      else case i of
        None \<Rightarrow> Inl ArgumentError
      | Some n \<Rightarrow>
          (case find (\<lambda>u. u_id u = n) (users d) of
             None \<Rightarrow> Inl RecordNotFound
           | Some old \<Rightarrow>
               let u = old\<lparr>u_username := (case upd_username c of None \<Rightarrow> u_username old | Some s \<Rightarrow> s),
                            u_email := (case upd_email c of None \<Rightarrow> u_email old | Some s \<Rightarrow> s),
                            u_password := (case upd_password c of None \<Rightarrow> u_password old | Some s \<Rightarrow> s)\<rparr>;
                   others = filter (\<lambda>x. u_id x \<noteq> n) (users d)
               in if u_username u \<in> set (map u_username others)
                     \<or> u_email u \<in> set (map u_email others) then Inl UniqueConstraintFailed
                  else Inr (u, d\<lparr>users := map (\<lambda>x. if u_id x = n then u else x) (users d)\<rparr>)))"

text \<open>A user row that a profile, a request or an activity log still refers to cannot
  be deleted.\<close>

definition user_referenced :: "int \<Rightarrow> db \<Rightarrow> bool" where
  "user_referenced n d =
     (n \<in> set (map p_userId (profiles d)) \<or> n \<in> set (map q_userId (requests d))
      \<or> n \<in> set (map l_userId (activityLogs d)))"

definition prisma_user_delete :: "int option \<Rightarrow> db \<Rightarrow> prisma_error + (user_row \<times> db)" where
  "prisma_user_delete i d =
     (if \<not> connected d then Inl ConnectionError
      else case i of
        None \<Rightarrow> Inl ArgumentError
      | Some n \<Rightarrow>
          (case find (\<lambda>u. u_id u = n) (users d) of
             None \<Rightarrow> Inl RecordNotFound
           | Some old \<Rightarrow>
               if user_referenced n d then Inl ForeignKeyConstraintFailed
               else Inr (old, d\<lparr>users := filter (\<lambda>x. u_id x \<noteq> n) (users d)\<rparr>)))"

definition prisma_userProfile_findUnique :: "int \<Rightarrow> db \<Rightarrow> prisma_error + profile_row option" where
  "prisma_userProfile_findUnique n d =
     (if connected d then Inr (find (\<lambda>p. p_userId p = n) (profiles d)) else Inl ConnectionError)"

definition prisma_userProfile_delete :: "int \<Rightarrow> db \<Rightarrow> prisma_error + (profile_row \<times> db)" where
  "prisma_userProfile_delete n d =
     (if \<not> connected d then Inl ConnectionError
      else case find (\<lambda>p. p_userId p = n) (profiles d) of
        None \<Rightarrow> Inl RecordNotFound
      | Some old \<Rightarrow> Inr (old, d\<lparr>profiles := filter (\<lambda>p. p_userId p \<noteq> n) (profiles d)\<rparr>))"

text \<open>Modelled from the spec: the profile columns are nullable, and a row that \<open>upsert\<close>
  creates has an absent field empty (defaulted). A field that is \<open>undefined\<close> leaves the
  column of an existing row as it is.\<close>

definition merge_profile :: "profile_fields \<Rightarrow> profile_row \<Rightarrow> profile_row" where
  "merge_profile f p =
     p\<lparr>p_firstName := (case f_firstName f of None \<Rightarrow> p_firstName p | Some s \<Rightarrow> Some s),
       p_lastName := (case f_lastName f of None \<Rightarrow> p_lastName p | Some s \<Rightarrow> Some s),
       p_phone := (case f_phone f of None \<Rightarrow> p_phone p | Some s \<Rightarrow> Some s),
       p_address := (case f_address f of None \<Rightarrow> p_address p | Some s \<Rightarrow> Some s)\<rparr>"

definition prisma_userProfile_upsert ::
  "int \<Rightarrow> profile_fields \<Rightarrow> profile_fields \<Rightarrow> db \<Rightarrow> prisma_error + (profile_row \<times> db)" where
  "prisma_userProfile_upsert n upd cre d =
     (if \<not> connected d then Inl ConnectionError
      else case find (\<lambda>p. p_userId p = n) (profiles d) of
        Some old \<Rightarrow>
          Inr (merge_profile upd old,
               d\<lparr>profiles := map (\<lambda>p. if p_userId p = n then merge_profile upd old else p) (profiles d)\<rparr>)
      | None \<Rightarrow>
          if \<not> user_exists n d then Inl ForeignKeyConstraintFailed
          else let p = \<lparr>p_userId = n, p_firstName = f_firstName cre, p_lastName = f_lastName cre,
                         p_phone = f_phone cre, p_address = f_address cre\<rparr>
               in Inr (p, d\<lparr>profiles := profiles d @ [p]\<rparr>))"

definition prisma_request_deleteMany :: "int \<Rightarrow> db \<Rightarrow> prisma_error + db" where
  "prisma_request_deleteMany n d =
     (if connected d then Inr (d\<lparr>requests := filter (\<lambda>r. q_userId r \<noteq> n) (requests d)\<rparr>)
      else Inl ConnectionError)"

text \<open>The objects the ORM returns: every column of the row, and the related rows a call
  includes.\<close>

definition user_fields :: "user_row \<Rightarrow> obj" where
  "user_fields u =
     [(''id'', JNum (u_id u)), (''username'', JStr (u_username u)), (''email'', JStr (u_email u)),
      (''password'', JStr (u_password u)), (''roleId'', JNum (u_roleId u))]"

definition nullable :: "string option \<Rightarrow> json" where
  "nullable s = (case s of None \<Rightarrow> JNull | Some t \<Rightarrow> JStr t)"

definition role_json :: "role_row option \<Rightarrow> json" where
  "role_json r =
     (case r of None \<Rightarrow> JNull
      | Some x \<Rightarrow> JObj [(''id'', JNum (r_id x)), (''name'', JStr (r_name x))])"

definition profile_json :: "profile_row option \<Rightarrow> json" where
  "profile_json p =
     (case p of None \<Rightarrow> JNull
      | Some x \<Rightarrow>
          JObj [(''userId'', JNum (p_userId x)), (''firstName'', nullable (p_firstName x)),
                (''lastName'', nullable (p_lastName x)), (''phone'', nullable (p_phone x)),
                (''address'', nullable (p_address x))])"

definition include_role :: "db \<Rightarrow> user_row \<Rightarrow> obj" where
  "include_role d u = [(''role'', role_json (find (\<lambda>r. r_id r = u_roleId u) (roles d)))]"

definition include_profile :: "db \<Rightarrow> user_row \<Rightarrow> obj" where
  "include_profile d u = [(''profile'', profile_json (find (\<lambda>p. p_userId p = u_id u) (profiles d)))]"

section \<open>The user collection handler\<close>

text \<open>
  \<^verbatim>\<open>
  const userSchema = Joi.object({
    username: Joi.string().alphanum().min(3).max(30).required(),
    email: Joi.string().email({ tlds: { allow: false } }).required(),
    password: Joi.string().min(8).required(),
    role: Joi.string().valid('user', 'admin').required(),
    firstName: Joi.string().optional(), lastName: Joi.string().optional(),
    phone: Joi.string().optional(), address: Joi.string().optional(),
  });
  \<close>
  \<open>updateUserSchema\<close> of this file has the same fields without \<open>role\<close>, all optional.
  The password hash function (bcrypt, cost 10) is the parameter \<open>hash\<close>.
\<close>

record user_body =
  ub_username :: string
  ub_email :: string
  ub_password :: string
  ub_role :: string
  ub_profile :: profile_fields

record user_update_body =
  uu_username :: "string option"
  uu_email :: "string option"
  uu_password :: "string option"
  uu_profile :: profile_fields

definition username_rules :: "(string \<Rightarrow> string \<Rightarrow> string list) list" where
  "username_rules = [rule_alphanum, rule_min 3, rule_max 30]"

definition profile_validate :: "obj \<Rightarrow> string list + profile_fields" where
  "profile_validate b =
     (let fn = joi_string_optional [] ''firstName'' (map_of b ''firstName'');
          ln = joi_string_optional [] ''lastName'' (map_of b ''lastName'');
          ph = joi_string_optional [] ''phone'' (map_of b ''phone'');
          ad = joi_string_optional [] ''address'' (map_of b ''address'')
      in case (fn, ln, ph, ad) of
           (Inr f, Inr l, Inr p, Inr a) \<Rightarrow>
             Inr \<lparr>f_firstName = f, f_lastName = l, f_phone = p, f_address = a\<rparr>
         | _ \<Rightarrow> Inl (errors_of fn @ errors_of ln @ errors_of ph @ errors_of ad))"

definition userSchema_validate :: "obj \<Rightarrow> string list + user_body" where
  "userSchema_validate b =
     (let un = joi_string_required username_rules ''username'' (map_of b ''username'');
          em = joi_string_required [rule_email] ''email'' (map_of b ''email'');
          pw = joi_string_required [rule_min 8] ''password'' (map_of b ''password'');
          ro = joi_valid_required [''user'', ''admin''] ''role'' (map_of b ''role'');
          pf = profile_validate b;
          known = [''username'', ''email'', ''password'', ''role'', ''firstName'', ''lastName'',
                   ''phone'', ''address''];
          errs = errors_of un @ errors_of em @ errors_of pw @ errors_of ro @ errors_of pf
                 @ unknown_errors False known b
      in case (un, em, pw, ro, pf) of
           (Inr u, Inr e, Inr p, Inr r, Inr f) \<Rightarrow>
             if errs = [] then
               Inr \<lparr>ub_username = u, ub_email = e, ub_password = p, ub_role = r, ub_profile = f\<rparr>
             else Inl errs
         | _ \<Rightarrow> Inl errs)"

definition updateUserSchema_validate :: "obj \<Rightarrow> string list + user_update_body" where
  "updateUserSchema_validate b =
     (let un = joi_string_optional username_rules ''username'' (map_of b ''username'');
          em = joi_string_optional [rule_email] ''email'' (map_of b ''email'');
          pw = joi_string_optional [rule_min 8] ''password'' (map_of b ''password'');
          pf = profile_validate b
      in case (un, em, pw, pf) of
           (Inr u, Inr e, Inr p, Inr f) \<Rightarrow>
             Inr \<lparr>uu_username = u, uu_email = e, uu_password = p, uu_profile = f\<rparr>
         | _ \<Rightarrow> Inl (errors_of un @ errors_of em @ errors_of pw @ errors_of pf))"

text \<open>\<open>x || ''\<close> and \<open>if (x)\<close> on a string that may be \<open>undefined\<close>.\<close>

definition or_empty :: "string option \<Rightarrow> string" where
  "or_empty x = (case x of None \<Rightarrow> [] | Some s \<Rightarrow> s)"

definition truthy_str :: "string option \<Rightarrow> bool" where
  "truthy_str x = (case x of None \<Rightarrow> False | Some s \<Rightarrow> s \<noteq> [])"

definition if_truthy :: "string option \<Rightarrow> string option" where
  "if_truthy x = (if truthy_str x then x else None)"

definition users_GET :: "string option \<Rightarrow> db \<Rightarrow> response" where
  "users_GET qid d =
     (if truthy_str qid then
        (case prisma_user_findUnique (parseInt_opt qid) d of
           Inl e \<Rightarrow> json_response (error_json ''Error fetching user(s)'') 500
         | Inr None \<Rightarrow> json_response (error_json ''User not found'') 404
         | Inr (Some user) \<Rightarrow>
             json_response (JObj (user_fields user @ include_role d user @ include_profile d user)) 200)
      else
        (case prisma_user_findMany d of
           Inl e \<Rightarrow> json_response (error_json ''Error fetching user(s)'') 500
         | Inr us \<Rightarrow>
             json_response
               (JArr (map (\<lambda>u. JObj (user_fields u @ include_role d u @ include_profile d u)) us)) 200))"

definition users_POST :: "(string \<Rightarrow> string) \<Rightarrow> obj \<Rightarrow> db \<Rightarrow> response \<times> db" where
  "users_POST hash b d =
     (case userSchema_validate b of
        Inl errs \<Rightarrow> (json_response (error_json (hd errs)) 400, d)
      | Inr v \<Rightarrow>
          (let hashedPassword = hash (ub_password v)
           in case prisma_role_findUnique (ub_role v) d of
                Inl e \<Rightarrow>
                  (if str_includes (error_message e) ''Unique constraint failed''
                   then (json_response (error_json ''Username or email already exists'') 400, d)
                   else (json_response (error_json ''Error creating user'') 500, d))
              | Inr None \<Rightarrow> (json_response (error_json ''Role not found'') 400, d)
              | Inr (Some roleData) \<Rightarrow>
                  (case prisma_user_create
                          \<lparr>c_username = ub_username v, c_email = ub_email v,
                           c_password = hashedPassword, c_roleId = r_id roleData,
                           c_profile =
                             \<lparr>f_firstName = Some (or_empty (f_firstName (ub_profile v))),
                              f_lastName = Some (or_empty (f_lastName (ub_profile v))),
                              f_phone = Some (or_empty (f_phone (ub_profile v))),
                              f_address = Some (or_empty (f_address (ub_profile v)))\<rparr>\<rparr> d of
                     Inl e \<Rightarrow>
                       (if str_includes (error_message e) ''Unique constraint failed''
                        then (json_response (error_json ''Username or email already exists'') 400, d)
                        else (json_response (error_json ''Error creating user'') 500, d))
                   | Inr (newUser, d1) \<Rightarrow> (json_response (JObj (user_fields newUser)) 201, d1))))"

definition users_PUT :: "(string \<Rightarrow> string) \<Rightarrow> string option \<Rightarrow> obj \<Rightarrow> db \<Rightarrow> response \<times> db" where
  "users_PUT hash qid b d =
     (if \<not> truthy_str qid then (json_response (error_json ''User ID not provided'') 400, d)
      else case parseInt_opt qid of
        None \<Rightarrow> (json_response (error_json ''Invalid user id'') 400, d)
      | Some userId \<Rightarrow>
          (case updateUserSchema_validate b of
             Inl errs \<Rightarrow> (json_response (error_json (join '', '' errs)) 400, d)
           | Inr v \<Rightarrow>
               (let updateData =
                      \<lparr>upd_username = if_truthy (uu_username v),
                       upd_email = if_truthy (uu_email v),
                       upd_password = map_option hash (if_truthy (uu_password v))\<rparr>
                in case prisma_user_update (Some userId) updateData d of
                     Inl e \<Rightarrow> (json_response (error_json ''Error updating user'') 500, d)
                   | Inr (updatedUser, d1) \<Rightarrow>
                       if truthy_str (f_firstName (uu_profile v)) \<or> truthy_str (f_lastName (uu_profile v))
                          \<or> truthy_str (f_phone (uu_profile v)) \<or> truthy_str (f_address (uu_profile v))
                       then
                         (case prisma_userProfile_upsert userId (uu_profile v) (uu_profile v) d1 of
                            Inl e \<Rightarrow> (json_response (error_json ''Error updating user'') 500, d1)
                          | Inr (p, d2) \<Rightarrow> (json_response (JObj (user_fields updatedUser)) 200, d2))
                       else (json_response (JObj (user_fields updatedUser)) 200, d1))))"

definition users_DELETE :: "string option \<Rightarrow> db \<Rightarrow> response \<times> db" where
  "users_DELETE qid d =
     (if \<not> truthy_str qid then (json_response (error_json ''User ID not provided'') 400, d)
      else case parseInt_opt qid of
        None \<Rightarrow> (json_response (error_json ''Invalid user id'') 400, d)
      | Some userId \<Rightarrow>
          (case prisma_userProfile_findUnique userId d of
             Inl e \<Rightarrow> (json_response (error_json ''Error deleting user'') 500, d)
           | Inr userProfile \<Rightarrow>
               (case (if userProfile \<noteq> None
                      then map_sum (\<lambda>e. e) snd (prisma_userProfile_delete userId d)
                      else Inr d) of
                  Inl e \<Rightarrow> (json_response (error_json ''Error deleting user'') 500, d)
                | Inr d1 \<Rightarrow>
                    (case prisma_request_deleteMany userId d1 of
                       Inl e \<Rightarrow> (json_response (error_json ''Error deleting user'') 500, d1)
                     | Inr d2 \<Rightarrow>
                         (case prisma_user_delete (Some userId) d2 of
                            Inl e \<Rightarrow> (json_response (error_json ''Error deleting user'') 500, d2)
                          | Inr (u, d3) \<Rightarrow> (empty_response 204, d3))))))"

section \<open>The user item handler\<close>

text \<open>
  The handler of \<open>/users/{id}\<close> takes the identifier from the last segment of the
  request URL, and has an \<open>updateUserSchema\<close> of its own:
  \<^verbatim>\<open>
  const updateUserSchema = Joi.object({
    username: Joi.string().alphanum().min(3).max(30).required(),
    email: Joi.string().email({ tlds: { allow: false } }).required(),
    password: Joi.string().min(8).required(),
  });
  \<close>
\<close>

record item_update_body =
  iu_username :: string
  iu_email :: string
  iu_password :: string

definition item_updateUserSchema_validate :: "obj \<Rightarrow> string list + item_update_body" where
  "item_updateUserSchema_validate b =
     (let un = joi_string_required username_rules ''username'' (map_of b ''username'');
          em = joi_string_required [rule_email] ''email'' (map_of b ''email'');
          pw = joi_string_required [rule_min 8] ''password'' (map_of b ''password'')
      in case (un, em, pw) of
           (Inr u, Inr e, Inr p) \<Rightarrow> Inr \<lparr>iu_username = u, iu_email = e, iu_password = p\<rparr>
         | _ \<Rightarrow> Inl (errors_of un @ errors_of em @ errors_of pw))"

definition user_item_GET :: "string \<Rightarrow> db \<Rightarrow> response" where
  "user_item_GET url d =
     (case prisma_user_findUnique (parseInt (last_segment url)) d of
        Inl e \<Rightarrow> json_response (error_json ''Error fetching user'') 500
      | Inr None \<Rightarrow> json_response (error_json ''User not found'') 404
      | Inr (Some user) \<Rightarrow> json_response (JObj (user_fields user @ include_role d user)) 200)"

definition user_item_PUT :: "(string \<Rightarrow> string) \<Rightarrow> string \<Rightarrow> obj \<Rightarrow> db \<Rightarrow> response \<times> db" where
  "user_item_PUT hash url b d =
     (case item_updateUserSchema_validate b of
        Inl errs \<Rightarrow> (json_response (error_json (join '', '' errs)) 400, d)
      | Inr v \<Rightarrow>
          (let hashedPassword = hash (iu_password v)
           in case prisma_user_update (parseInt (last_segment url))
                     \<lparr>upd_username = Some (iu_username v), upd_email = Some (iu_email v),
                      upd_password = Some hashedPassword\<rparr> d of
                Inl e \<Rightarrow> (json_response (error_json ''Error updating user'') 500, d)
              | Inr (updatedUser, d1) \<Rightarrow> (json_response (JObj (user_fields updatedUser)) 200, d1)))"

text \<open>\<^verbatim>\<open>await prisma.user.delete({ where: { id: parseInt(id) } });
  return NextResponse.json(null, { status: 204 });\<close>\<close>

definition user_item_DELETE :: "string \<Rightarrow> db \<Rightarrow> response \<times> db" where
  "user_item_DELETE url d =
     (case prisma_user_delete (parseInt (last_segment url)) d of
        Inl e \<Rightarrow> (json_response (error_json ''Error deleting user'') 500, d)
      | Inr (u, d1) \<Rightarrow> (json_response JNull 204, d1))"

section \<open>The mail relay handler\<close>

text \<open>
  The outbound transport is outside the repository: \<open>transport\<close> stands for
  \<open>createTransport(config).sendMail(message)\<close> and answers with the message of the error
  it throws (\<open>Inl\<close>) or with its acceptance metadata (\<open>Inr\<close>). \<open>env\<close> is \<open>process.env\<close>.
\<close>

record transport_config =
  t_host :: "string option"
  t_port :: "int option"
  t_secure :: bool
  t_user :: "string option"
  t_pass :: "string option"

record mail_message =
  m_from :: "string option"
  m_to :: json
  m_subject :: json
  m_text :: json

definition accent_e :: char where
  "accent_e = CHR 0xE9"

definition or_null :: "json option \<Rightarrow> json" where
  "or_null v = (case v of None \<Rightarrow> JNull | Some x \<Rightarrow> x)"

definition mail_transporter :: "(string \<rightharpoonup> string) \<Rightarrow> transport_config" where
  "mail_transporter env =
     \<lparr>t_host = env ''SMTP_HOST'', t_port = parseInt_opt (env ''SMTP_PORT''),
      t_secure = (env ''SMTP_PORT'' = Some ''465''),
      t_user = env ''SMTP_USER'', t_pass = env ''SMTP_PASS''\<rparr>"

definition mailOptions :: "(string \<rightharpoonup> string) \<Rightarrow> obj \<Rightarrow> mail_message" where
  "mailOptions env b =
     \<lparr>m_from = env ''SMTP_USER'', m_to = or_null (map_of b ''to''),
      m_subject = or_null (map_of b ''subject''), m_text = or_null (map_of b ''text'')\<rparr>"

definition mail_POST ::
  "(transport_config \<Rightarrow> mail_message \<Rightarrow> string + json) \<Rightarrow> (string \<rightharpoonup> string) \<Rightarrow> obj \<Rightarrow> response" where
  "mail_POST transport env b =
     (if \<not> truthy (map_of b ''to'') \<or> \<not> truthy (map_of b ''subject'') \<or> \<not> truthy (map_of b ''text'')
      then json_response (error_json ''Missing email, subject, or text'') 400
      else
        case transport (mail_transporter env) (mailOptions env b) of
          Inl message \<Rightarrow>
            json_response
              (JObj [(''error'', JStr ''Error al enviar el correo''), (''details'', JStr message)]) 500
        | Inr info \<Rightarrow>
            json_response
              (JObj [(''message'', JStr (''Correo enviado con '' @ [accent_e] @ ''xito'')),
                     (''info'', info)]) 200)"

section \<open>Example stores and inputs\<close>

definition alice :: user_row where
  "alice = \<lparr>u_id = 1, u_username = ''alice01'', u_email = ''a@b.com'',
            u_password = ''$2b$10$stored'', u_roleId = 1\<rparr>"

definition alice_profile :: profile_row where
  "alice_profile = \<lparr>p_userId = 1, p_firstName = Some ''Alice'', p_lastName = Some [],
                    p_phone = Some [], p_address = Some []\<rparr>"

definition roles0 :: "role_row list" where
  "roles0 = [\<lparr>r_id = 1, r_name = ''user''\<rparr>, \<lparr>r_id = 2, r_name = ''admin''\<rparr>]"

text \<open>A store with the two roles and nothing else.\<close>

definition db_empty :: db where
  "db_empty = \<lparr>connected = True, users = [], roles = roles0, profiles = [], requests = [],
               activityLogs = []\<rparr>"

text \<open>A store with one user, who has no profile, no request and no log entry.\<close>

definition db_alice :: db where
  "db_alice = \<lparr>connected = True, users = [alice], roles = roles0, profiles = [], requests = [],
               activityLogs = []\<rparr>"

text \<open>A store with one user, who has a profile and two requests.\<close>

definition db_full :: db where
  "db_full = \<lparr>connected = True, users = [alice], roles = roles0, profiles = [alice_profile],
     requests = [\<lparr>q_id = 1, q_userId = 1, q_description = ''The printer is out of toner'',
                  q_status = ''pending''\<rparr>,
                 \<lparr>q_id = 2, q_userId = 1, q_description = ''Please reset my password'',
                  q_status = ''completed''\<rparr>],
     activityLogs = []\<rparr>"

text \<open>A stand-in for the password hash function in the examples.\<close>

definition sample_hash :: "string \<Rightarrow> string" where
  "sample_hash p = ''$2b$10$'' @ rev p"

definition env0 :: "string \<rightharpoonup> string" where
  "env0 = map_of [(''SMTP_HOST'', ''smtp.example.org''), (''SMTP_PORT'', ''587''),
                  (''SMTP_USER'', ''noreply@example.org''), (''SMTP_PASS'', ''secret'')]"

definition mail_body :: obj where
  "mail_body = [(''to'', JStr ''bob@example.org''), (''subject'', JStr ''Hello''),
                (''text'', JStr ''Hi Bob'')]"

definition alice_body :: obj where
  "alice_body = [(''username'', JStr ''alice01''), (''email'', JStr ''a@b.com''),
                 (''password'', JStr ''longpw123''), (''role'', JStr ''user'')]"

definition new_request_body :: obj where
  "new_request_body = [(''userId'', JNum 1), (''description'', JStr ''The printer is out of toner'')]"

text \<open>A transport whose connection is refused.\<close>

definition refusing_transport :: "transport_config \<Rightarrow> mail_message \<Rightarrow> string + json" where
  "refusing_transport c m = Inl ''connect ECONNREFUSED 127.0.0.1:587''"

section \<open>Properties\<close>

subsection \<open>The redirect callback\<close>

lemma redirect_same_prefix: "prefix baseUrl url \<Longrightarrow> redirect url baseUrl = baseUrl"
  by (simp add: redirect_def)

lemma redirect_other: "\<not> prefix baseUrl url \<Longrightarrow> redirect url baseUrl = url"
  by (simp add: redirect_def)

text \<open>
  C1. The claim: the redirect callback returns the caller's URL only when it shares the
  application's origin, and never an external URL. The callback has the two branches of
  its conditional the other way round: a URL that does not start with the base URL is
  returned as it is. At the base URL \<open>http://localhost:3000\<close> the external URL
  \<open>https://evil.example/login\<close> is what the callback returns.
\<close>

theorem redirect_returns_external_url:
  "\<not> prefix ''http://localhost:3000'' ''https://evil.example/login'' \<and>
   redirect ''https://evil.example/login'' ''http://localhost:3000'' = ''https://evil.example/login''"
  by (simp add: redirect_def)

subsection \<open>The statistics aggregate\<close>

lemma four_counts_le_length:
  "count_status ''pending'' rs + count_status ''in-progress'' rs
     + count_status ''completed'' rs + count_status ''rejected'' rs \<le> length rs"
  by (induction rs) (auto simp: count_status_def)

lemma four_counts_eq_length:
  "\<forall>r \<in> set rs. q_status r \<in> {''pending'', ''in-progress'', ''completed'', ''rejected''} \<Longrightarrow>
   count_status ''pending'' rs + count_status ''in-progress'' rs
     + count_status ''completed'' rs + count_status ''rejected'' rs = length rs"
  by (induction rs) (auto simp: count_status_def)

text \<open>
  C8. Whenever the statistics handler computes its aggregate (the store answers), the
  response carries the counts of \<open>request_stats\<close> over the stored requests, the four
  status counts add up to at most the total, and to exactly the total when every stored
  request has one of the four known statuses.
\<close>

theorem stats_counts_bounded:
  assumes "connected d"
  shows "stats_GET d = json_response (stats_json (request_stats (requests d))) 200
    \<and> pending (request_stats (requests d)) + inProgress (request_stats (requests d))
        + completed (request_stats (requests d)) + rejected (request_stats (requests d))
        \<le> total (request_stats (requests d))
    \<and> ((\<forall>r \<in> set (requests d).
           q_status r \<in> {''pending'', ''in-progress'', ''completed'', ''rejected''})
        \<longrightarrow> pending (request_stats (requests d)) + inProgress (request_stats (requests d))
              + completed (request_stats (requests d)) + rejected (request_stats (requests d))
              = total (request_stats (requests d)))"
proof -
  have "stats_GET d = json_response (stats_json (request_stats (requests d))) 200"
    using assms by (simp add: stats_GET_def prisma_request_findMany_def)
  moreover have "pending (request_stats (requests d)) + inProgress (request_stats (requests d))
        + completed (request_stats (requests d)) + rejected (request_stats (requests d))
        \<le> total (request_stats (requests d))"
    using four_counts_le_length [of "requests d"] by (simp add: request_stats_def)
  moreover have "(\<forall>r \<in> set (requests d).
           q_status r \<in> {''pending'', ''in-progress'', ''completed'', ''rejected''})
        \<longrightarrow> pending (request_stats (requests d)) + inProgress (request_stats (requests d))
              + completed (request_stats (requests d)) + rejected (request_stats (requests d))
              = total (request_stats (requests d))"
    using four_counts_eq_length [of "requests d"] by (simp add: request_stats_def)
  ultimately show ?thesis by blast
qed

theorem stats_counts_bounded_witness:
  "connected db_full
   \<and> map q_status (requests db_full) = [''pending'', ''completed'']
   \<and> stats_GET db_full
       = json_response (stats_json \<lparr>total = 2, pending = 1, inProgress = 0, completed = 1,
                                     rejected = 0\<rparr>) 200
   \<and> pending (request_stats (requests db_full)) + inProgress (request_stats (requests db_full))
        + completed (request_stats (requests db_full)) + rejected (request_stats (requests db_full))
       = total (request_stats (requests db_full))"
proof -
  have c: "connected db_full"
    by (simp add: db_full_def)
  have k: "\<forall>r \<in> set (requests db_full).
             q_status r \<in> {''pending'', ''in-progress'', ''completed'', ''rejected''}"
    by (simp add: db_full_def)
  have v: "request_stats (requests db_full)
           = \<lparr>total = 2, pending = 1, inProgress = 0, completed = 1, rejected = 0\<rparr>"
    by (simp add: db_full_def request_stats_def count_status_def)
  have m: "map q_status (requests db_full) = [''pending'', ''completed'']"
    by (simp add: db_full_def)
  from stats_counts_bounded [OF c] c k v m show ?thesis
    by simp
qed

subsection \<open>Validation of request payloads\<close>

lemma joi_string_required_Inr:
  "joi_string_required rules k v = Inr s \<Longrightarrow> v = Some (JStr s)"
  by (cases v; cases "the v") (auto simp: joi_string_required_def split: if_splits)

lemma description_rejected:
  assumes "\<not> (\<exists>s. v = Some (JStr s) \<and> 10 \<le> length s)"
  shows "\<exists>es. joi_string_required [rule_min 10] k v = Inl es"
proof (cases "joi_string_required [rule_min 10] k v")
  case (Inl es)
  then show ?thesis by blast
next
  case (Inr s)
  then have v: "v = Some (JStr s)" by (rule joi_string_required_Inr)
  with Inr have "rule_min 10 k s = []"
    by (auto simp: joi_string_required_def apply_rules_def split: if_splits)
  then have "10 \<le> length s"
    by (auto simp: rule_min_def split: if_splits)
  with v assms show ?thesis by blast
qed

lemma requestSchema_rejects:
  assumes "map_of b ''userId'' = None
           \<or> \<not> (\<exists>s. map_of b ''description'' = Some (JStr s) \<and> 10 \<le> length s)"
  shows "\<exists>errs. requestSchema_validate au b = Inl errs"
  using assms
proof (elim disjE)
  assume "map_of b ''userId'' = None"
  then show ?thesis
    by (simp add: requestSchema_validate_def Let_def)
next
  assume "\<not> (\<exists>s. map_of b ''description'' = Some (JStr s) \<and> 10 \<le> length s)"
  then obtain es where
    "joi_string_required [rule_min 10] ''description'' (map_of b ''description'') = Inl es"
    using description_rejected by blast
  then show ?thesis
    by (simp add: requestSchema_validate_def Let_def split: sum.splits)
qed

text \<open>
  C4. The claim: a request-creation payload whose status is one of pending, in-progress,
  completed, rejected (its other fields valid) is accepted, in particular with status
  \<open>rejected\<close>. The schema lists three of the four values, and \<open>rejected\<close> is not among
  them, while the statistics handler counts requests of that status. A payload of an
  existing user, with a description of 27 characters and the status \<open>rejected\<close>, is
  answered with 400 and nothing is created.
\<close>

theorem request_post_rejects_status_rejected:
  "requests_POST [(''userId'', JNum 1), (''description'', JStr ''The printer is out of toner''),
                  (''status'', JStr ''rejected'')] db_alice
   = (json_response
        (error_json (only_message ''status'' [''pending'', ''in-progress'', ''completed''])) 400,
      db_alice)"
  by code_simp

text \<open>
  C10. An update of a request is validated with the schema of creation: a payload that
  has no \<open>userId\<close>, or whose \<open>description\<close> is not a string of at least 10 characters, is
  answered with 400 by the update handler, as it is by the creation handler, and the
  store is left as it was.
\<close>

theorem request_put_validates_as_creation:
  assumes "map_of b ''userId'' = None
           \<or> \<not> (\<exists>s. map_of b ''description'' = Some (JStr s) \<and> 10 \<le> length s)"
  shows "status (fst (requests_PUT qid b d)) = 400 \<and> snd (requests_PUT qid b d) = d
         \<and> status (fst (requests_POST b d)) = 400 \<and> snd (requests_POST b d) = d"
proof -
  obtain e1 where "requestSchema_validate True b = Inl e1"
    using requestSchema_rejects [OF assms] by blast
  moreover obtain e2 where "requestSchema_validate False b = Inl e2"
    using requestSchema_rejects [OF assms] by blast
  ultimately show ?thesis
    by (simp add: requests_PUT_def requests_POST_def json_response_def)
qed

text \<open>The payload \<open>{status: "completed"}\<close>, meant to change the status of request 1 only.\<close>

theorem request_put_validates_as_creation_witness:
  "map_of [(''status'', JStr ''completed'')] ''userId'' = None
   \<and> status (fst (requests_PUT (Some ''1'') [(''status'', JStr ''completed'')] db_full)) = 400
   \<and> snd (requests_PUT (Some ''1'') [(''status'', JStr ''completed'')] db_full) = db_full"
  using request_put_validates_as_creation [of "[(''status'', JStr ''completed'')]" "Some ''1''" db_full]
  by simp

subsection \<open>Deleting a user\<close>

text \<open>The item handler makes one call, the deletion of the user row: it never changes
  the profiles or the requests.\<close>

lemma user_item_DELETE_dependents:
  "profiles (snd (user_item_DELETE url d)) = profiles d
   \<and> requests (snd (user_item_DELETE url d)) = requests d"
  by (auto simp: user_item_DELETE_def prisma_user_delete_def
        split: sum.splits prod.splits if_splits option.splits)

text \<open>The collection handler, on the same store: profile, requests and user are gone.\<close>

lemma users_DELETE_example:
  "users_DELETE (Some ''1'') db_full
   = (empty_response 204, db_full\<lparr>users := [], profiles := [], requests := []\<rparr>)"
  by code_simp

text \<open>
  C2. The claim: every deletion of a user by identifier first deletes the user's profile
  and requests, and then the user row. The collection handler does so. The item handler
  (\<open>DELETE /users/{id}\<close>) deletes the user row only: for user 1 of \<open>db_full\<close>, who has a
  profile and two requests, the call fails on the rows that still refer to the user, the
  answer is 500, and the profile, the two requests and the user remain.
\<close>

theorem user_item_delete_keeps_dependents:
  "user_item_DELETE ''http://localhost:3000/api/users/1'' db_full
   = (json_response (error_json ''Error deleting user'') 500, db_full)"
  by code_simp

subsection \<open>Updating a user\<close>

text \<open>The collection handler accepts a payload of profile fields only, and merges it
  into the profile.\<close>

lemma users_PUT_example:
  "users_PUT sample_hash (Some ''1'') [(''phone'', JStr ''555-1234'')] db_full
   = (json_response (JObj (user_fields alice)) 200,
      db_full\<lparr>profiles := [alice_profile\<lparr>p_phone := Some ''555-1234''\<rparr>]\<rparr>)"
  by code_simp

text \<open>
  C3. The claim: an update of a user validates a payload whose fields are all optional,
  and accepts a payload of profile fields only. The collection handler does so. The
  schema of the item handler (\<open>PUT /users/{id}\<close>) requires \<open>username\<close>, \<open>email\<close> and
  \<open>password\<close>: the payload \<open>{phone: "555-1234"}\<close> is answered with 400 and the three
  messages, and nothing is updated.
\<close>

theorem user_item_put_rejects_profile_only:
  "user_item_PUT sample_hash ''http://localhost:3000/api/users/1'' [(''phone'', JStr ''555-1234'')]
     db_full
   = (json_response
        (error_json (join '', '' [quoted ''username'' @ '' is required'',
           quoted ''email'' @ '' is required'', quoted ''password'' @ '' is required''])) 400,
      db_full)"
  by code_simp

subsection \<open>The mail relay\<close>

text \<open>
  C5, as the claim states it: a transport failure is answered with a generic message and
  the detail of the failure is not in the response. With a transport that refuses the
  connection, the response has the message of the transport error in its \<open>details\<close>
  field.
\<close>

theorem mail_failure_details_counterexample:
  "refusing_transport (mail_transporter env0) (mailOptions env0 mail_body)
     = Inl ''connect ECONNREFUSED 127.0.0.1:587''
   \<and> status (mail_POST refusing_transport env0 mail_body) = 500
   \<and> response_field (mail_POST refusing_transport env0 mail_body) ''details''
       = Some (JStr ''connect ECONNREFUSED 127.0.0.1:587'')"
  by code_simp

text \<open>
  C5, amended. When recipient, subject and text are present and the transport fails, the
  handler answers 500 with a body of two fields: \<open>error\<close>, the fixed message, and
  \<open>details\<close>, the message of the transport error.
\<close>

theorem mail_failure_carries_details:
  assumes "truthy (map_of b ''to'')" and "truthy (map_of b ''subject'')"
    and "truthy (map_of b ''text'')"
    and "transport (mail_transporter env) (mailOptions env b) = Inl message"
  shows "mail_POST transport env b
         = json_response (JObj [(''error'', JStr ''Error al enviar el correo''),
                                (''details'', JStr message)]) 500"
  using assms by (simp add: mail_POST_def)

theorem mail_failure_carries_details_witness:
  "truthy (map_of mail_body ''to'') \<and> truthy (map_of mail_body ''subject'')
   \<and> truthy (map_of mail_body ''text'')
   \<and> refusing_transport (mail_transporter env0) (mailOptions env0 mail_body)
       = Inl ''connect ECONNREFUSED 127.0.0.1:587''
   \<and> mail_POST refusing_transport env0 mail_body
       = json_response (JObj [(''error'', JStr ''Error al enviar el correo''),
                              (''details'', JStr ''connect ECONNREFUSED 127.0.0.1:587'')]) 500"
proof -
  have t: "truthy (map_of mail_body ''to'')" and s: "truthy (map_of mail_body ''subject'')"
    and x: "truthy (map_of mail_body ''text'')"
    by (simp_all add: mail_body_def)
  have f: "refusing_transport (mail_transporter env0) (mailOptions env0 mail_body)
           = Inl ''connect ECONNREFUSED 127.0.0.1:587''"
    by (simp add: refusing_transport_def)
  from mail_failure_carries_details
         [of mail_body refusing_transport env0 "''connect ECONNREFUSED 127.0.0.1:587''", OF t s x f]
       t s x f
  show ?thesis
    by simp
qed

subsection \<open>The password in responses\<close>

lemma fold_max_ge: "a \<le> fold max xs (a::int)"
  by (induction xs arbitrary: a) (auto intro: order_trans [OF max.cobounded2])

lemma fold_max_upper: "x \<in> set xs \<Longrightarrow> x \<le> fold max xs (a::int)"
proof (induction xs arbitrary: a)
  case Nil
  then show ?case by simp
next
  case (Cons y ys)
  show ?case
  proof (cases "x = y")
    case True
    have "y \<le> max y a" by simp
    also have "\<dots> \<le> fold max ys (max y a)" by (rule fold_max_ge)
    finally show ?thesis using True by simp
  next
    case False
    with Cons.prems have "x \<in> set ys" by simp
    then show ?thesis using Cons.IH by simp
  qed
qed

lemma next_id_fresh: "next_id ids \<notin> set ids"
proof
  assume "next_id ids \<in> set ids"
  then have "next_id ids \<le> fold max ids 0" by (rule fold_max_upper)
  then show False by (simp add: next_id_def)
qed

lemma find_fresh_append:
  assumes "\<forall>x \<in> set xs. \<not> P x" and "P y"
  shows "find P (xs @ [y]) = Some y"
  using assms by (induction xs) auto

lemma userSchema_password:
  "userSchema_validate b = Inr v \<Longrightarrow> map_of b ''password'' = Some (JStr (ub_password v))"
  by (auto simp: userSchema_validate_def Let_def split: sum.splits if_splits
        dest: joi_string_required_Inr)

lemma prisma_user_create_result:
  assumes "prisma_user_create c d = Inr (u, d1)"
  shows "u_password u = c_password c \<and> users d1 = users d @ [u]
         \<and> u_id u \<notin> set (map u_id (users d)) \<and> connected d1"
  using assms next_id_fresh [of "map u_id (users d)"]
  by (auto simp: prisma_user_create_def Let_def split: if_splits)

lemma users_POST_created:
  assumes "status (fst (users_POST hash b d)) = 201"
  shows "\<exists>v u. userSchema_validate b = Inr v \<and> u_password u = hash (ub_password v)
           \<and> users (snd (users_POST hash b d)) = users d @ [u]
           \<and> u_id u \<notin> set (map u_id (users d)) \<and> connected (snd (users_POST hash b d))
           \<and> fst (users_POST hash b d) = json_response (JObj (user_fields u)) 201"
proof (cases "userSchema_validate b")
  case (Inl errs)
  with assms show ?thesis
    by (simp add: users_POST_def json_response_def)
next
  case (Inr v)
  show ?thesis
  proof (cases "prisma_role_findUnique (ub_role v) d")
    case (Inl e)
    with assms Inr show ?thesis
      by (simp add: users_POST_def json_response_def split: if_splits)
  next
    case role: (Inr ro)
    show ?thesis
    proof (cases ro)
      case None
      with assms Inr role show ?thesis
        by (simp add: users_POST_def json_response_def)
    next
      case (Some roleData)
      define c where "c = \<lparr>c_username = ub_username v, c_email = ub_email v,
          c_password = hash (ub_password v), c_roleId = r_id roleData,
          c_profile =
            \<lparr>f_firstName = Some (or_empty (f_firstName (ub_profile v))),
             f_lastName = Some (or_empty (f_lastName (ub_profile v))),
             f_phone = Some (or_empty (f_phone (ub_profile v))),
             f_address = Some (or_empty (f_address (ub_profile v)))\<rparr>\<rparr>"
      have eq: "users_POST hash b d =
          (case prisma_user_create c d of
             Inl e \<Rightarrow>
               (if str_includes (error_message e) ''Unique constraint failed''
                then (json_response (error_json ''Username or email already exists'') 400, d)
                else (json_response (error_json ''Error creating user'') 500, d))
           | Inr (newUser, d1) \<Rightarrow> (json_response (JObj (user_fields newUser)) 201, d1))"
        by (simp add: users_POST_def Inr role Some c_def)
      show ?thesis
      proof (cases "prisma_user_create c d")
        case (Inl e)
        with assms eq show ?thesis
          by (simp add: json_response_def split: if_splits)
      next
        case created: (Inr p)
        obtain u d1 where p: "p = (u, d1)" by (cases p)
        have res: "users_POST hash b d = (json_response (JObj (user_fields u)) 201, d1)"
          by (simp add: eq created p)
        have "c_password c = hash (ub_password v)"
          by (simp add: c_def)
        with prisma_user_create_result [of c d u d1] created p res Inr show ?thesis
          by simp
      qed
    qed
  qed
qed

lemma users_GET_found:
  assumes "connected d" and "truthy_str qid" and "parseInt_opt qid = Some n"
    and "find (\<lambda>u. u_id u = n) (users d) = Some u"
  shows "response_field (users_GET qid d) ''password'' = Some (JStr (u_password u))"
  using assms
  by (simp add: users_GET_def prisma_user_findUnique_def response_field_def json_response_def
        user_fields_def)

text \<open>
  C6, as the claim states it: after a successful creation, neither the response nor a
  later GET of the user has a password field. For the payload of the spec's scenario the
  creation answers 201 with a \<open>password\<close> field, and so does the GET of user 1
  afterwards; the field holds the stored hash.
\<close>

theorem password_field_counterexample:
  "status (fst (users_POST sample_hash alice_body db_empty)) = 201
   \<and> response_field (fst (users_POST sample_hash alice_body db_empty)) ''password''
       = Some (JStr (sample_hash ''longpw123''))
   \<and> status (users_GET (Some ''1'') (snd (users_POST sample_hash alice_body db_empty))) = 200
   \<and> response_field (users_GET (Some ''1'') (snd (users_POST sample_hash alice_body db_empty)))
         ''password'' = Some (JStr (sample_hash ''longpw123''))"
  by code_simp

text \<open>
  C6, amended. After a successful creation (201), the response has the new user's \<open>id\<close>
  and a \<open>password\<close> field that holds the hash of the submitted password, and a GET of
  that identifier on the resulting store returns a record whose \<open>password\<close> field holds
  the same hash. What is returned is the output of the hash function, not the submitted
  text.
\<close>

theorem created_user_response_has_hash:
  assumes "status (fst (users_POST hash b d)) = 201"
  shows "\<exists>pw uid. map_of b ''password'' = Some (JStr pw)
           \<and> response_field (fst (users_POST hash b d)) ''id'' = Some (JNum uid)
           \<and> response_field (fst (users_POST hash b d)) ''password'' = Some (JStr (hash pw))
           \<and> (\<forall>qid. truthy_str qid \<and> parseInt_opt qid = Some uid \<longrightarrow>
                 response_field (users_GET qid (snd (users_POST hash b d))) ''password''
                 = Some (JStr (hash pw)))"
proof -
  let ?d1 = "snd (users_POST hash b d)"
  obtain v u where v: "userSchema_validate b = Inr v"
    and pw: "u_password u = hash (ub_password v)"
    and us: "users ?d1 = users d @ [u]"
    and fresh: "u_id u \<notin> set (map u_id (users d))"
    and conn: "connected ?d1"
    and r: "fst (users_POST hash b d) = json_response (JObj (user_fields u)) 201"
    using users_POST_created [OF assms] by blast
  have "\<forall>x \<in> set (users d). \<not> u_id x = u_id u"
    using fresh by (auto simp: image_iff)
  then have found: "find (\<lambda>x. u_id x = u_id u) (users ?d1) = Some u"
    unfolding us by (intro find_fresh_append) simp_all
  have "map_of b ''password'' = Some (JStr (ub_password v))"
    using v by (rule userSchema_password)
  moreover have "response_field (fst (users_POST hash b d)) ''id'' = Some (JNum (u_id u))"
    by (simp add: r response_field_def json_response_def user_fields_def)
  moreover have "response_field (fst (users_POST hash b d)) ''password''
                 = Some (JStr (hash (ub_password v)))"
    by (simp add: r response_field_def json_response_def user_fields_def pw)
  moreover have "\<forall>qid. truthy_str qid \<and> parseInt_opt qid = Some (u_id u) \<longrightarrow>
                 response_field (users_GET qid ?d1) ''password'' = Some (JStr (hash (ub_password v)))"
    using users_GET_found [OF conn _ _ found] pw by simp
  ultimately show ?thesis by blast
qed

theorem created_user_response_has_hash_witness:
  "status (fst (users_POST sample_hash alice_body db_empty)) = 201
   \<and> truthy_str (Some ''1'') \<and> parseInt_opt (Some ''1'') = Some 1
   \<and> response_field (fst (users_POST sample_hash alice_body db_empty)) ''id'' = Some (JNum 1)
   \<and> response_field (fst (users_POST sample_hash alice_body db_empty)) ''password''
       = Some (JStr (sample_hash ''longpw123''))
   \<and> response_field (users_GET (Some ''1'') (snd (users_POST sample_hash alice_body db_empty)))
         ''password'' = Some (JStr (sample_hash ''longpw123''))"
proof -
  have s: "status (fst (users_POST sample_hash alice_body db_empty)) = 201"
    by code_simp
  have q: "truthy_str (Some ''1'') \<and> parseInt_opt (Some ''1'') = Some 1"
    by code_simp
  have i: "response_field (fst (users_POST sample_hash alice_body db_empty)) ''id'' = Some (JNum 1)"
    by code_simp
  have p: "map_of alice_body ''password'' = Some (JStr ''longpw123'')"
    by code_simp
  from created_user_response_has_hash [OF s] s q i p show ?thesis
    by (metis option.inject json.inject(2,3))
qed


subsection \<open>The audit entries of request mutations\<close>

lemma prisma_request_create_logs:
  "prisma_request_create v d = Inr (q, d1) \<Longrightarrow> activityLogs d1 = activityLogs d"
  by (auto simp: prisma_request_create_def Let_def split: if_splits)

lemma prisma_request_update_logs:
  "prisma_request_update i v d = Inr (q, d1) \<Longrightarrow> activityLogs d1 = activityLogs d"
  by (auto simp: prisma_request_update_def Let_def split: if_splits option.splits)

lemma prisma_request_delete_logs:
  "prisma_request_delete i d = Inr (q, d1) \<Longrightarrow> activityLogs d1 = activityLogs d"
  by (auto simp: prisma_request_delete_def split: if_splits option.splits)

lemma logActivity_appends:
  "logActivity u a s d1 = Inr d2 \<Longrightarrow>
   activityLogs d2 = activityLogs d1 @ [\<lparr>l_userId = u, l_action = a, l_description = s\<rparr>]"
  by (auto simp: logActivity_def prisma_activityLog_create_def split: if_splits)

lemma post_audit:
  assumes "activityLogs (snd (requests_POST b d)) \<noteq> activityLogs d
           \<or> status (fst (requests_POST b d)) = 201"
  shows "\<exists>v q d1. requestSchema_validate False b = Inr v
           \<and> prisma_request_create v d = Inr (q, d1)
           \<and> activityLogs d1 = activityLogs d
           \<and> activityLogs (snd (requests_POST b d))
               = activityLogs d1 @ [\<lparr>l_userId = q_userId q, l_action = ''CREATE'',
                    l_description = ''Created a new request with ID '' @ show_int (q_id q)\<rparr>]"
  using assms
  by (auto simp: requests_POST_def json_response_def
        dest: prisma_request_create_logs logActivity_appends split: sum.splits prod.splits)

lemma put_audit:
  assumes "activityLogs (snd (requests_PUT qid b d)) \<noteq> activityLogs d
           \<or> status (fst (requests_PUT qid b d)) = 200"
  shows "\<exists>v q d1. requestSchema_validate True b = Inr v
           \<and> prisma_request_update (parseInt_opt qid) v d = Inr (q, d1)
           \<and> activityLogs d1 = activityLogs d
           \<and> activityLogs (snd (requests_PUT qid b d))
               = activityLogs d1 @ [\<lparr>l_userId = q_userId q, l_action = ''UPDATE'',
                    l_description = ''Updated request with ID '' @ show_int (q_id q)\<rparr>]"
  using assms
  by (auto simp: requests_PUT_def json_response_def
        dest: prisma_request_update_logs logActivity_appends split: sum.splits prod.splits)

lemma delete_audit:
  assumes "activityLogs (snd (requests_DELETE qid d)) \<noteq> activityLogs d
           \<or> status (fst (requests_DELETE qid d)) = 200"
  shows "\<exists>q d1. prisma_request_delete (parseInt_opt qid) d = Inr (q, d1)
           \<and> activityLogs d1 = activityLogs d
           \<and> activityLogs (snd (requests_DELETE qid d))
               = activityLogs d1 @ [\<lparr>l_userId = q_userId q, l_action = ''DELETE'',
                    l_description = ''Deleted request with ID '' @ show_int (q_id q)\<rparr>]"
  using assms
  by (auto simp: requests_DELETE_def json_response_def
        dest: prisma_request_delete_logs logActivity_appends split: sum.splits prod.splits)

text \<open>A creation that fails (there is no user 99) writes no entry.\<close>

lemma request_post_failed_mutation_example:
  "requests_POST [(''userId'', JNum 99), (''description'', JStr ''The printer is out of toner'')]
     db_alice
   = (json_response (error_json ''Error creating request'') 500, db_alice)"
  by code_simp

text \<open>
  C9. For each of the three mutations of a request (create, update, delete): when the
  handler has written to the activity log, or has answered with its success status, the
  mutation itself had succeeded before, on a store whose log was still the old one, and
  the log has grown by exactly one entry, which names the owning user of the mutated
  request and carries its identifier in the description. So when the mutation fails, or
  the payload is rejected, the log stays as it was.
\<close>

theorem audit_entry_follows_mutation:
  "((activityLogs (snd (requests_POST b d)) \<noteq> activityLogs d
      \<or> status (fst (requests_POST b d)) = 201) \<longrightarrow>
    (\<exists>v q d1. requestSchema_validate False b = Inr v
       \<and> prisma_request_create v d = Inr (q, d1)
       \<and> activityLogs d1 = activityLogs d
       \<and> activityLogs (snd (requests_POST b d))
           = activityLogs d1 @ [\<lparr>l_userId = q_userId q, l_action = ''CREATE'',
                l_description = ''Created a new request with ID '' @ show_int (q_id q)\<rparr>]))
   \<and> ((activityLogs (snd (requests_PUT qid b d)) \<noteq> activityLogs d
      \<or> status (fst (requests_PUT qid b d)) = 200) \<longrightarrow>
    (\<exists>v q d1. requestSchema_validate True b = Inr v
       \<and> prisma_request_update (parseInt_opt qid) v d = Inr (q, d1)
       \<and> activityLogs d1 = activityLogs d
       \<and> activityLogs (snd (requests_PUT qid b d))
           = activityLogs d1 @ [\<lparr>l_userId = q_userId q, l_action = ''UPDATE'',
                l_description = ''Updated request with ID '' @ show_int (q_id q)\<rparr>]))
   \<and> ((activityLogs (snd (requests_DELETE qid d)) \<noteq> activityLogs d
      \<or> status (fst (requests_DELETE qid d)) = 200) \<longrightarrow>
    (\<exists>q d1. prisma_request_delete (parseInt_opt qid) d = Inr (q, d1)
       \<and> activityLogs d1 = activityLogs d
       \<and> activityLogs (snd (requests_DELETE qid d))
           = activityLogs d1 @ [\<lparr>l_userId = q_userId q, l_action = ''DELETE'',
                l_description = ''Deleted request with ID '' @ show_int (q_id q)\<rparr>]))"
  using post_audit [of b d] put_audit [of qid b d] delete_audit [of qid d]
  by blast

theorem audit_entry_follows_mutation_witness:
  "status (fst (requests_POST new_request_body db_alice)) = 201
   \<and> activityLogs (snd (requests_POST new_request_body db_alice))
       = [\<lparr>l_userId = 1, l_action = ''CREATE'',
           l_description = ''Created a new request with ID 1''\<rparr>]"
proof -
  let ?v = "\<lparr>d_userId = 1, d_description = ''The printer is out of toner'',
             d_status = ''pending'', d_unknown = []\<rparr>"
  let ?q = "\<lparr>q_id = 1, q_userId = 1, q_description = ''The printer is out of toner'',
             q_status = ''pending''\<rparr>"
  have s: "status (fst (requests_POST new_request_body db_alice)) = 201"
    by code_simp
  have v: "requestSchema_validate False new_request_body = Inr ?v"
    by code_simp
  have c: "prisma_request_create ?v db_alice = Inr (?q, db_alice\<lparr>requests := [?q]\<rparr>)"
    by code_simp
  have l: "activityLogs db_alice = []" and n: "show_int 1 = ''1''"
    by code_simp+
  from audit_entry_follows_mutation [of new_request_body db_alice] s
  obtain v' q' d1' where a: "requestSchema_validate False new_request_body = Inr v'"
    and b: "prisma_request_create v' db_alice = Inr (q', d1')"
    and e: "activityLogs d1' = activityLogs db_alice"
    and f: "activityLogs (snd (requests_POST new_request_body db_alice))
           = activityLogs d1' @ [\<lparr>l_userId = q_userId q', l_action = ''CREATE'',
                l_description = ''Created a new request with ID '' @ show_int (q_id q')\<rparr>]"
    by blast
  from a v have "v' = ?v" by simp
  with b c have "q' = ?q" by simp
  with e f l n s show ?thesis
    by simp
qed

subsection \<open>The responses of deletions\<close>

lemma users_DELETE_204:
  "users (snd (users_DELETE qid d)) \<noteq> users d \<Longrightarrow> fst (users_DELETE qid d) = empty_response 204"
  by (auto simp: users_DELETE_def prisma_userProfile_findUnique_def prisma_userProfile_delete_def
        prisma_request_deleteMany_def
        split: if_splits option.splits sum.splits prod.splits)

lemma requests_DELETE_200:
  "activityLogs (snd (requests_DELETE qid d)) \<noteq> activityLogs d \<Longrightarrow>
   fst (requests_DELETE qid d) = json_response (JObj []) 200"
  by (auto simp: requests_DELETE_def dest: prisma_request_delete_logs split: sum.splits prod.splits)

lemma requests_DELETE_status:
  "status (fst (requests_DELETE qid d)) = 200 \<or> status (fst (requests_DELETE qid d)) = 500"
  by (auto simp: requests_DELETE_def json_response_def split: sum.splits prod.splits)

text \<open>
  C7, as the claim states it: every successful deletion, of a user or of a request, is
  answered with 204 and no body. The deletion of request 1 removes the row, writes the
  audit entry, and is answered with 200 and the body \<open>{}\<close>.
\<close>

theorem request_delete_counterexample:
  "requests_DELETE (Some ''1'') db_full =
   (json_response (JObj []) 200,
    db_full\<lparr>requests := [\<lparr>q_id = 2, q_userId = 1, q_description = ''Please reset my password'',
                            q_status = ''completed''\<rparr>],
       activityLogs := [\<lparr>l_userId = 1, l_action = ''DELETE'',
                         l_description = ''Deleted request with ID 1''\<rparr>]\<rparr>)
   \<and> status (fst (requests_DELETE (Some ''1'') db_full)) \<noteq> 204
   \<and> body (fst (requests_DELETE (Some ''1'') db_full)) \<noteq> None"
  by code_simp

text \<open>
  C7, amended. A deletion through the user collection handler that removes the user row
  is answered with 204 and no body. A request deletion that removes the row and writes
  its audit entry is answered with 200 and an empty JSON object; the request deletion
  handler answers with 200 or 500, never with 204.
\<close>

theorem deletion_responses:
  "(users (snd (users_DELETE qid d)) \<noteq> users d \<longrightarrow>
      fst (users_DELETE qid d) = empty_response 204)
   \<and> (activityLogs (snd (requests_DELETE qid d)) \<noteq> activityLogs d \<longrightarrow>
      fst (requests_DELETE qid d) = json_response (JObj []) 200)
   \<and> (status (fst (requests_DELETE qid d)) = 200 \<or> status (fst (requests_DELETE qid d)) = 500)"
  using users_DELETE_204 [of qid d] requests_DELETE_200 [of qid d] requests_DELETE_status [of qid d]
  by blast

theorem deletion_responses_witness:
  "users (snd (users_DELETE (Some ''1'') db_full)) \<noteq> users db_full
   \<and> fst (users_DELETE (Some ''1'') db_full) = \<lparr>status = 204, body = None\<rparr>
   \<and> activityLogs (snd (requests_DELETE (Some ''1'') db_full)) \<noteq> activityLogs db_full
   \<and> fst (requests_DELETE (Some ''1'') db_full) = \<lparr>status = 200, body = Some (JObj [])\<rparr>"
proof -
  have u: "users (snd (users_DELETE (Some ''1'') db_full)) \<noteq> users db_full"
    by code_simp
  have l: "activityLogs (snd (requests_DELETE (Some ''1'') db_full)) \<noteq> activityLogs db_full"
    by code_simp
  from deletion_responses [of "Some ''1''" db_full] u l show ?thesis
    by (simp add: empty_response_def json_response_def)
qed


end
